theory Spec2Isabelle
  imports Complex_Main "HOL-Library.Char_ord" "HOL-Library.List_Lexorder"
begin

section \<open>Values\<close>

text \<open>
  The numeric cells of a pandas frame are float64. The special values follow IEEE 754 as
  numpy computes them (no exception is raised by a division by zero); a finite value is
  modelled by an exact rational, so rounding, overflow and the sign of zero are abstracted.
\<close>

datatype fval = Fin rat | PInf | NInf | NaN

fun fneg :: "fval \<Rightarrow> fval" where
  "fneg (Fin a) = Fin (- a)"
| "fneg PInf = NInf"
| "fneg NInf = PInf"
| "fneg NaN = NaN"

definition inf_times :: "fval \<Rightarrow> rat \<Rightarrow> fval" where
  "inf_times i b = (if b = 0 then NaN else if 0 < b then i else fneg i)"

fun fmul :: "fval \<Rightarrow> fval \<Rightarrow> fval" where
  "fmul NaN y = NaN"
| "fmul x NaN = NaN"
| "fmul (Fin a) (Fin b) = Fin (a * b)"
| "fmul (Fin a) PInf = inf_times PInf a"
| "fmul (Fin a) NInf = inf_times NInf a"
| "fmul PInf (Fin b) = inf_times PInf b"
| "fmul NInf (Fin b) = inf_times NInf b"
| "fmul PInf PInf = PInf"
| "fmul PInf NInf = NInf"
| "fmul NInf PInf = NInf"
| "fmul NInf NInf = PInf"

fun fadd :: "fval \<Rightarrow> fval \<Rightarrow> fval" where
  "fadd NaN y = NaN"
| "fadd x NaN = NaN"
| "fadd (Fin a) (Fin b) = Fin (a + b)"
| "fadd (Fin a) y = y"
| "fadd x (Fin b) = x"
| "fadd PInf PInf = PInf"
| "fadd NInf NInf = NInf"
| "fadd PInf NInf = NaN"
| "fadd NInf PInf = NaN"

fun fdiv :: "fval \<Rightarrow> fval \<Rightarrow> fval" where
  "fdiv NaN y = NaN"
| "fdiv x NaN = NaN"
| "fdiv (Fin a) (Fin b) =
     (if b = 0 then (if a = 0 then NaN else if 0 < a then PInf else NInf)
      else Fin (a / b))"
| "fdiv (Fin a) y = Fin 0"
| "fdiv x (Fin b) = (if 0 \<le> b then x else fneg x)"
| "fdiv x y = NaN"

text \<open>A cell of a frame: a string (object) or a float; a missing cell is \<open>Num NaN\<close>.\<close>

datatype cell = Txt string | Num fval

datatype error =
    KeyError string
  | ValueError string
  | TypeError
  | AdapterError string
  | ProviderError

section \<open>Balance collection\<close>

text \<open>A balance tuple is (source, symbol, balance), the columns of \<open>balances_pdf\<close>.\<close>

type_synonym balance_tuple = "string \<times> string \<times> rat"

definition source :: "balance_tuple \<Rightarrow> string" where
  "source t = fst t"

definition symbol :: "balance_tuple \<Rightarrow> string" where
  "symbol t = fst (snd t)"

definition balance :: "balance_tuple \<Rightarrow> rat" where
  "balance t = snd (snd t)"

text \<open>
  The exchange, network and manual adapters are collaborators: an adapter is its name and
  what its one call of \<open>get_balances()\<close> does: it raises, returns \<open>None\<close>, or returns a list.
\<close>

datatype outcome = Raises | ReturnsNone | Returns "balance_tuple list"

record adapter =
  name :: string
  get_balances :: outcome

text \<open>What an adapter contributes to the balances: the list it returned, if any.\<close>

definition returned :: "adapter \<Rightarrow> balance_tuple list" where
  "returned a = (case get_balances a of Returns l \<Rightarrow> l | _ \<Rightarrow> [])"

text \<open>
  The loops of \<open>get_balances_from_exchanges\<close> and \<open>get_balances_from_networks\<close>. The
  accumulator \<open>balances\<close> is the list being extended; \<open>calls\<close> logs, in order, the name of
  every adapter whose \<open>get_balances()\<close> has been invoked. There is no \<open>try\<close> in the source:
  an exception leaves the loop.
\<close>

fun exchanges_loop ::
  "adapter list \<Rightarrow> balance_tuple list \<Rightarrow> string list \<Rightarrow> (error + balance_tuple list) \<times> string list" where
  "exchanges_loop [] balances calls = (Inr balances, calls)"
| "exchanges_loop (exchange # rest) balances calls =
     (case get_balances exchange of
        Raises \<Rightarrow> (Inl (AdapterError (name exchange)), calls @ [name exchange])
      | ReturnsNone \<Rightarrow> exchanges_loop rest balances (calls @ [name exchange])
      | Returns exchange_balance \<Rightarrow>
          if exchange_balance = [] then exchanges_loop rest balances (calls @ [name exchange])
          else exchanges_loop rest (balances @ exchange_balance) (calls @ [name exchange]))"

definition get_balances_from_exchanges ::
  "adapter list \<Rightarrow> string list \<Rightarrow> (error + balance_tuple list) \<times> string list" where
  "get_balances_from_exchanges exchanges calls = exchanges_loop exchanges [] calls"

fun networks_loop ::
  "adapter list \<Rightarrow> balance_tuple list \<Rightarrow> string list \<Rightarrow> (error + balance_tuple list) \<times> string list" where
  "networks_loop [] balances calls = (Inr balances, calls)"
| "networks_loop (network # rest) balances calls =
     (case get_balances network of
        Raises \<Rightarrow> (Inl (AdapterError (name network)), calls @ [name network])
      | ReturnsNone \<Rightarrow> networks_loop rest balances (calls @ [name network])
      | Returns network_balance \<Rightarrow>
          if network_balance = [] then networks_loop rest balances (calls @ [name network])
          else networks_loop rest (balances @ network_balance) (calls @ [name network]))"

definition get_balances_from_networks ::
  "adapter list \<Rightarrow> string list \<Rightarrow> (error + balance_tuple list) \<times> string list" where
  "get_balances_from_networks networks calls = networks_loop networks [] calls"

text \<open>\<open>get_balances_from_manual_file\<close> returns what the adapter returned, \<open>None\<close> included.\<close>

definition get_balances_from_manual_file ::
  "adapter option \<Rightarrow> string list \<Rightarrow> (error + balance_tuple list option) \<times> string list" where
  "get_balances_from_manual_file manual calls =
     (case manual of
        None \<Rightarrow> (Inr (Some []), calls)
      | Some m \<Rightarrow>
          (case get_balances m of
             Raises \<Rightarrow> (Inl (AdapterError (name m)), calls @ [name m])
           | ReturnsNone \<Rightarrow> (Inr None, calls @ [name m])
           | Returns balances \<Rightarrow> (Inr (Some balances), calls @ [name m])))"

text \<open>
  Lines 185 to 188 of \<open>report\<close>: the three collectors in sequence and the concatenation of
  their lists (\<open>list + None\<close> is a TypeError).
\<close>

definition collect_balances ::
  "adapter list \<Rightarrow> adapter list \<Rightarrow> adapter option \<Rightarrow> (error + balance_tuple list) \<times> string list" where
  "collect_balances exchanges networks manual =
     (case get_balances_from_exchanges exchanges [] of
        (Inl e, c1) \<Rightarrow> (Inl e, c1)
      | (Inr exchange_balances, c1) \<Rightarrow>
     (case get_balances_from_networks networks c1 of
        (Inl e, c2) \<Rightarrow> (Inl e, c2)
      | (Inr network_balances, c2) \<Rightarrow>
     (case get_balances_from_manual_file manual c2 of
        (Inl e, c3) \<Rightarrow> (Inl e, c3)
      | (Inr None, c3) \<Rightarrow> (Inl TypeError, c3)
      | (Inr (Some manual_balances), c3) \<Rightarrow>
          (Inr (exchange_balances @ network_balances @ manual_balances), c3))))"

section \<open>Aggregation\<close>

fun str_join :: "string \<Rightarrow> string list \<Rightarrow> string" where
  "str_join sep [] = []"
| "str_join sep [x] = x"
| "str_join sep (x # y # ys) = x @ sep @ str_join sep (y # ys)"

text \<open>
  Iterating a Python \<open>set\<close> of strings visits each distinct element once, in an order that
  the hashes of the strings decide; string hashing is seeded per interpreter process. The
  parameter \<open>slot\<close> stands for that seed: the elements come out ordered by their slot.
\<close>

definition set_iter :: "(string \<Rightarrow> nat) \<Rightarrow> string list \<Rightarrow> string list" where
  "set_iter slot xs = sort_key slot (remdups xs)"

text \<open>\<open>combine_balances\<close>: the series (source, balance) computed for one group.\<close>

definition combine_balances :: "(string \<Rightarrow> nat) \<Rightarrow> balance_tuple list \<Rightarrow> string \<times> rat" where
  "combine_balances slot row =
     (str_join ''|'' (set_iter slot (map source row)), sum_list (map balance row))"

section \<open>Frames\<close>

text \<open>
  The part of pandas that \<open>report\<close> uses. A frame is a string index with its name and the
  columns in their order, each column holding one cell per index entry.
\<close>

record frame =
  index_name :: "string option"
  index :: "string list"
  columns :: "(string \<times> cell list) list"

type_synonym coin_info = "(string \<times> cell) list"

text \<open>\<open>balances_pdf.groupby(by=["symbol"])\<close>: the groups in sorted key order, each with its
  rows in their original order.\<close>

definition groupby_symbol :: "balance_tuple list \<Rightarrow> (string \<times> balance_tuple list) list" where
  "groupby_symbol balances_pdf =
     map (\<lambda>k. (k, filter (\<lambda>t. symbol t = k) balances_pdf))
       (sort (remdups (map symbol balances_pdf)))"

text \<open>
  \<open>.apply(self.combine_balances)\<close>: one row per group, indexed by the group key, with the
  entries of the returned series as columns. With no group at all pandas returns an empty
  frame that keeps the columns of the grouped frame.
\<close>

definition groupby_apply :: "(string \<Rightarrow> nat) \<Rightarrow> balance_tuple list \<Rightarrow> frame" where
  "groupby_apply slot balances_pdf =
     (if balances_pdf = [] then
        \<lparr>index_name = Some ''symbol'', index = [],
         columns = [(''source'', []), (''symbol'', []), (''balance'', [])]\<rparr>
      else
        (let groups = groupby_symbol balances_pdf;
             results = map (\<lambda>g. combine_balances slot (snd g)) groups
         in \<lparr>index_name = Some ''symbol'', index = map fst groups,
             columns = [(''source'', map (\<lambda>r. Txt (fst r)) results),
                        (''balance'', map (\<lambda>r. Num (Fin (snd r))) results)]\<rparr>))"

text \<open>The distinct elements of a list, each at the place of its first occurrence.\<close>

definition first_seen :: "'a list \<Rightarrow> 'a list" where
  "first_seen xs = rev (remdups (rev xs))"

text \<open>The cell under a key; a key that is absent gives a missing cell.\<close>

definition cell_at :: "(string \<rightharpoonup> cell) \<Rightarrow> string \<Rightarrow> cell" where
  "cell_at m k = (case m k of None \<Rightarrow> Num NaN | Some v \<Rightarrow> v)"

text \<open>
  \<open>pd.DataFrame.from_dict(coin_info_dict, orient="index")\<close>: a row per key, a column per
  key of the inner dictionaries in the order they are first met; no column at all when the
  dictionary is empty.
\<close>

definition from_dict :: "(string \<times> coin_info) list \<Rightarrow> frame" where
  "from_dict d =
     \<lparr>index_name = None, index = map fst d,
      columns = map (\<lambda>c. (c, map (\<lambda>e. cell_at (map_of (snd e)) c) d))
                  (first_seen (concat (map (\<lambda>e. map fst (snd e)) d)))\<rparr>"

text \<open>\<open>left.join(right)\<close>: a left join on the index; the columns must not overlap.\<close>

definition join :: "frame \<Rightarrow> frame \<Rightarrow> error + frame" where
  "join left right =
     (if list_ex (\<lambda>c. c \<in> set (map fst (columns right))) (map fst (columns left)) then
        Inl (ValueError ''columns overlap but no suffix specified'')
      else
        Inr (left\<lparr>columns := columns left @
               map (\<lambda>col. (fst col, map (cell_at (map_of (zip (index right) (snd col)))) (index left)))
                 (columns right)\<rparr>))"

text \<open>\<open>frame[c]\<close> raises KeyError when there is no column \<open>c\<close>.\<close>

definition getitem :: "frame \<Rightarrow> string \<Rightarrow> error + cell list" where
  "getitem f c = (case map_of (columns f) c of None \<Rightarrow> Inl (KeyError c) | Some vs \<Rightarrow> Inr vs)"

text \<open>\<open>frame[c] = vs\<close> replaces the column \<open>c\<close> where it stands, or appends it.\<close>

definition setitem :: "frame \<Rightarrow> string \<Rightarrow> cell list \<Rightarrow> frame" where
  "setitem f c vs =
     (if c \<in> set (map fst (columns f)) then
        f\<lparr>columns := map (\<lambda>col. if fst col = c then (c, vs) else col) (columns f)\<rparr>
      else f\<lparr>columns := columns f @ [(c, vs)]\<rparr>)"

text \<open>
  Arithmetic on cells: a string operand is a TypeError. The columns of a frame have the same
  length, so the product of two columns goes cell by cell.
\<close>

fun cell_mul :: "cell \<Rightarrow> cell \<Rightarrow> error + cell" where
  "cell_mul (Num a) (Num b) = Inr (Num (fmul a b))"
| "cell_mul x y = Inl TypeError"

fun column_mul :: "cell list \<Rightarrow> cell list \<Rightarrow> error + cell list" where
  "column_mul (x # xs) (y # ys) =
     (case cell_mul x y of
        Inl e \<Rightarrow> Inl e
      | Inr z \<Rightarrow> (case column_mul xs ys of Inl e \<Rightarrow> Inl e | Inr zs \<Rightarrow> Inr (z # zs)))"
| "column_mul xs ys = Inr []"

fun floats :: "cell list \<Rightarrow> error + fval list" where
  "floats [] = Inr []"
| "floats (Txt s # xs) = Inl TypeError"
| "floats (Num a # xs) = (case floats xs of Inl e \<Rightarrow> Inl e | Inr as \<Rightarrow> Inr (a # as))"

text \<open>\<open>x.sum()\<close>: the sum of the values that are not NaN, 0 when there is none.\<close>

definition nansum :: "fval list \<Rightarrow> fval" where
  "nansum xs = foldl fadd (Fin 0) (filter (\<lambda>v. v \<noteq> NaN) xs)"

text \<open>\<open>lambda x: x / x.sum()\<close> applied to a column.\<close>

definition share :: "cell list \<Rightarrow> error + cell list" where
  "share x =
     (case floats x of
        Inl e \<Rightarrow> Inl e
      | Inr vs \<Rightarrow> Inr (map (\<lambda>v. Num (fdiv v (nansum vs))) vs))"

text \<open>\<open>reset_index\<close>: the index becomes the first column, named after the index.\<close>

definition reset_index :: "frame \<Rightarrow> error + (string \<times> cell list) list" where
  "reset_index f =
     (let c = (case index_name f of None \<Rightarrow> ''index'' | Some n \<Rightarrow> n) in
      if c \<in> set (map fst (columns f)) then
        Inl (ValueError (''cannot insert '' @ c @ '', already exists''))
      else Inr ((c, map Txt (index f)) # columns f))"

definition get_rename_map :: "(string \<times> string) list" where
  "get_rename_map =
     [(''source'', ''Exchange(s) / Network(s)''),
      (''symbol'', ''Symbol''),
      (''name'', ''Full Name''),
      (''rank'', ''Coin Rank''),
      (''market_cap'', ''Market Cap''),
      (''max_supply'', ''Max Supply''),
      (''total_supply'', ''Total Supply''),
      (''circulating_supply'', ''Circulating Supply''),
      (''balance'', ''Balance''),
      (''price_usd'', ''Price (USD)''),
      (''total_value_usd'', ''Total Value (USD)''),
      (''portfolio_percentage'', ''Portfolio Percentage'')]"

text \<open>\<open>rename(columns=m)\<close>: a label that is a key of the map is replaced, any other is kept.\<close>

definition renamed :: "(string \<times> string) list \<Rightarrow> string \<Rightarrow> string" where
  "renamed m c = (case map_of m c of None \<Rightarrow> c | Some c' \<Rightarrow> c')"

definition rename :: "(string \<times> string) list \<Rightarrow> (string \<times> cell list) list \<Rightarrow> (string \<times> cell list) list" where
  "rename m t = map (\<lambda>col. (renamed m (fst col), snd col)) t"

section \<open>The report\<close>

text \<open>Line 206: the grouped balances joined with the frame of the coin information.\<close>

definition joined :: "(string \<Rightarrow> nat) \<Rightarrow> balance_tuple list \<Rightarrow> (string \<times> coin_info) list \<Rightarrow> error + frame" where
  "joined slot balances coin_info_dict =
     (let groupped_balances_pdf = groupby_apply slot balances;
          coin_info_pdf = (from_dict coin_info_dict)\<lparr>index_name := Some ''symbol''\<rparr>
      in join groupped_balances_pdf coin_info_pdf)"

text \<open>Line 207: \<open>report_pdf["total_value_usd"] = report_pdf["balance"] * report_pdf["price_usd"]\<close>.\<close>

definition add_total_value :: "frame \<Rightarrow> error + frame" where
  "add_total_value report_pdf =
     (case getitem report_pdf ''balance'' of
        Inl e \<Rightarrow> Inl e
      | Inr b \<Rightarrow>
     (case getitem report_pdf ''price_usd'' of
        Inl e \<Rightarrow> Inl e
      | Inr p \<Rightarrow>
     (case column_mul b p of
        Inl e \<Rightarrow> Inl e
      | Inr v \<Rightarrow> Inr (setitem report_pdf ''total_value_usd'' v))))"

text \<open>Lines 208 to 210: the share of each total value in the sum of the column.\<close>

definition add_portfolio_percentage :: "frame \<Rightarrow> error + frame" where
  "add_portfolio_percentage report_pdf =
     (case getitem report_pdf ''total_value_usd'' of
        Inl e \<Rightarrow> Inl e
      | Inr x \<Rightarrow>
     (case share x of
        Inl e \<Rightarrow> Inl e
      | Inr r \<Rightarrow> Inr (setitem report_pdf ''portfolio_percentage'' r)))"

text \<open>Lines 189 to 210: the frame before its columns are renamed.\<close>

definition valued :: "(string \<Rightarrow> nat) \<Rightarrow> balance_tuple list \<Rightarrow> (string \<times> coin_info) list \<Rightarrow> error + frame" where
  "valued slot balances coin_info_dict =
     (case joined slot balances coin_info_dict of
        Inl e \<Rightarrow> Inl e
      | Inr report_pdf \<Rightarrow>
     (case add_total_value report_pdf of
        Inl e \<Rightarrow> Inl e
      | Inr report_pdf \<Rightarrow> add_portfolio_percentage report_pdf))"

text \<open>Lines 189 to 214: the frame that is handed to the writer.\<close>

definition report_pdf :: "(string \<Rightarrow> nat) \<Rightarrow> balance_tuple list \<Rightarrow> (string \<times> coin_info) list \<Rightarrow> error + (string \<times> cell list) list" where
  "report_pdf slot balances coin_info_dict =
     (case valued slot balances coin_info_dict of
        Inl e \<Rightarrow> Inl e
      | Inr f \<Rightarrow>
     (case reset_index f of
        Inl e \<Rightarrow> Inl e
      | Inr t \<Rightarrow> Inr (rename get_rename_map t)))"

text \<open>
  \<open>report\<close>, up to the call of the writer. The market data provider
  (\<open>CoinMarketCap.get_coin_info\<close>) is a collaborator: a function of the set of symbols that
  raises or returns the dictionary of the coin information.
\<close>

definition report ::
  "(string \<Rightarrow> nat) \<Rightarrow> adapter list \<Rightarrow> adapter list \<Rightarrow> adapter option \<Rightarrow>
   (string set \<Rightarrow> error + (string \<times> coin_info) list) \<Rightarrow>
   (error + (string \<times> cell list) list) \<times> string list" where
  "report slot exchanges networks manual get_coin_info =
     (case collect_balances exchanges networks manual of
        (Inl e, calls) \<Rightarrow> (Inl e, calls)
      | (Inr balances, calls) \<Rightarrow>
          (let symbols = set (index (groupby_apply slot balances)) in
           case get_coin_info symbols of
             Inl e \<Rightarrow> (Inl e, calls)
           | Inr coin_info_dict \<Rightarrow> (report_pdf slot balances coin_info_dict, calls)))"


section \<open>Notions used in the statements\<close>

text \<open>The source labels that \<open>combine_balances\<close> computes for the groups, in group order.\<close>

definition source_labels :: "(string \<Rightarrow> nat) \<Rightarrow> balance_tuple list \<Rightarrow> cell list" where
  "source_labels slot balances =
     map (\<lambda>g. Txt (str_join ''|'' (set_iter slot (map source (snd g))))) (groupby_symbol balances)"

text \<open>A frame whose first column is \<open>source\<close>, and that frame with other cells in this column.\<close>

definition source_first :: "frame \<Rightarrow> bool" where
  "source_first f = (\<exists>S rest. columns f = (''source'', S) # rest)"

definition with_source :: "cell list \<Rightarrow> frame \<Rightarrow> frame" where
  "with_source S f = f\<lparr>columns := (''source'', S) # tl (columns f)\<rparr>"


section \<open>Properties of the collectors\<close>

lemma exchanges_loop_returns:
  "list_all (\<lambda>a. get_balances a \<noteq> Raises) xs \<Longrightarrow>
   exchanges_loop xs balances calls = (Inr (balances @ concat (map returned xs)), calls @ map name xs)"
  by (induction xs arbitrary: balances calls) (auto simp: returned_def split: outcome.splits)

lemma exchanges_loop_raises:
  "list_all (\<lambda>a. get_balances a \<noteq> Raises) pre \<Longrightarrow> get_balances x = Raises \<Longrightarrow>
   exchanges_loop (pre @ x # post) balances calls =
     (Inl (AdapterError (name x)), calls @ map name pre @ [name x])"
  by (induction pre arbitrary: balances calls) (auto split: outcome.splits)

lemma networks_loop_returns:
  "list_all (\<lambda>a. get_balances a \<noteq> Raises) xs \<Longrightarrow>
   networks_loop xs balances calls = (Inr (balances @ concat (map returned xs)), calls @ map name xs)"
  by (induction xs arbitrary: balances calls) (auto simp: returned_def split: outcome.splits)

lemma networks_loop_raises:
  "list_all (\<lambda>a. get_balances a \<noteq> Raises) pre \<Longrightarrow> get_balances x = Raises \<Longrightarrow>
   networks_loop (pre @ x # post) balances calls =
     (Inl (AdapterError (name x)), calls @ map name pre @ [name x])"
  by (induction pre arbitrary: balances calls) (auto split: outcome.splits)

text \<open>
  C5, as the code has it. The two collector loops call the adapters in the configured order.
  When no adapter raises, every adapter is invoked exactly once (the log of the calls is the
  list of the adapters' names) and the result is the concatenation of what they returned, an
  adapter that returned nothing being skipped. When an adapter raises, the exception leaves
  the loop: the adapters before it and the adapter itself have been invoked once, and no
  adapter after it is invoked.
\<close>

theorem collector_invocations:
  "(list_all (\<lambda>a. get_balances a \<noteq> Raises) xs \<longrightarrow>
      get_balances_from_exchanges xs calls = (Inr (concat (map returned xs)), calls @ map name xs) \<and>
      get_balances_from_networks xs calls = (Inr (concat (map returned xs)), calls @ map name xs)) \<and>
   (list_all (\<lambda>a. get_balances a \<noteq> Raises) pre \<and> get_balances x = Raises \<longrightarrow>
      get_balances_from_exchanges (pre @ x # post) calls =
        (Inl (AdapterError (name x)), calls @ map name pre @ [name x]) \<and>
      get_balances_from_networks (pre @ x # post) calls =
        (Inl (AdapterError (name x)), calls @ map name pre @ [name x]))"
  by (simp add: get_balances_from_exchanges_def get_balances_from_networks_def
      exchanges_loop_returns networks_loop_returns exchanges_loop_raises networks_loop_raises)

theorem collector_invocations_witness:
  "list_all (\<lambda>a. get_balances a \<noteq> Raises)
     [\<lparr>name = ''binance'', get_balances = Returns []\<rparr>,
      \<lparr>name = ''kraken'', get_balances = Returns [(''kraken'', ''BTC'', 1)]\<rparr>] \<and>
   get_balances \<lparr>name = ''bybit'', get_balances = Raises\<rparr> = Raises \<and>
   get_balances_from_exchanges
     [\<lparr>name = ''binance'', get_balances = Returns []\<rparr>,
      \<lparr>name = ''kraken'', get_balances = Returns [(''kraken'', ''BTC'', 1)]\<rparr>] [] =
     (Inr [(''kraken'', ''BTC'', 1)], [''binance'', ''kraken'']) \<and>
   get_balances_from_networks
     ([\<lparr>name = ''binance'', get_balances = Returns []\<rparr>,
       \<lparr>name = ''kraken'', get_balances = Returns [(''kraken'', ''BTC'', 1)]\<rparr>] @
      \<lparr>name = ''bybit'', get_balances = Raises\<rparr> #
      [\<lparr>name = ''okx'', get_balances = Returns [(''okx'', ''ETH'', 2)]\<rparr>]) [] =
     (Inl (AdapterError ''bybit''), [''binance'', ''kraken'', ''bybit''])"
  using collector_invocations [where xs = "[\<lparr>name = ''binance'', get_balances = Returns []\<rparr>,
      \<lparr>name = ''kraken'', get_balances = Returns [(''kraken'', ''BTC'', 1)]\<rparr>]"
    and pre = "[\<lparr>name = ''binance'', get_balances = Returns []\<rparr>,
      \<lparr>name = ''kraken'', get_balances = Returns [(''kraken'', ''BTC'', 1)]\<rparr>]"
    and x = "\<lparr>name = ''bybit'', get_balances = Raises\<rparr>"
    and post = "[\<lparr>name = ''okx'', get_balances = Returns [(''okx'', ''ETH'', 2)]\<rparr>]"
    and calls = "[]"]
  by (simp add: returned_def)

text \<open>
  C5 as stated fails: the first exchange raises, and the second exchange is never invoked.
\<close>

theorem fault_isolation_counterexample:
  "get_balances_from_exchanges
     [\<lparr>name = ''binance'', get_balances = Raises\<rparr>,
      \<lparr>name = ''kraken'', get_balances = Returns [(''kraken'', ''BTC'', 1)]\<rparr>] [] =
     (Inl (AdapterError ''binance''), [''binance''])"
  by (simp add: get_balances_from_exchanges_def)

section \<open>The empty portfolio\<close>

text \<open>
  C3 on the code. When the collectors yield no balance tuple and the provider returns an empty
  dictionary for the empty set of symbols, the frame of the coin information has no column,
  and line 207 raises \<open>KeyError: 'price_usd'\<close>: no report is produced.
\<close>

theorem empty_portfolio_raises:
  "fst (collect_balances exchanges networks manual) = Inr [] \<Longrightarrow>
   get_coin_info {} = Inr [] \<Longrightarrow>
   fst (report slot exchanges networks manual get_coin_info) = Inl (KeyError ''price_usd'')"
  by (cases "collect_balances exchanges networks manual")
     (simp add: report_def report_pdf_def valued_def joined_def groupby_apply_def from_dict_def
      join_def add_total_value_def getitem_def first_seen_def)

theorem empty_portfolio_raises_witness:
  "fst (collect_balances [\<lparr>name = ''binance'', get_balances = Returns []\<rparr>]
          [\<lparr>name = ''solana'', get_balances = ReturnsNone\<rparr>] None) = Inr [] \<and>
   (\<lambda>symbols. Inr []) ({} :: string set) = (Inr [] :: error + (string \<times> coin_info) list) \<and>
   fst (report (\<lambda>s. 0) [\<lparr>name = ''binance'', get_balances = Returns []\<rparr>]
          [\<lparr>name = ''solana'', get_balances = ReturnsNone\<rparr>] None (\<lambda>symbols. Inr [])) =
     Inl (KeyError ''price_usd'')"
  using empty_portfolio_raises [of "[\<lparr>name = ''binance'', get_balances = Returns []\<rparr>]"
      "[\<lparr>name = ''solana'', get_balances = ReturnsNone\<rparr>]" None "\<lambda>symbols. Inr []" "\<lambda>s. 0"]
  by (simp add: collect_balances_def get_balances_from_exchanges_def get_balances_from_networks_def
      get_balances_from_manual_file_def)

section \<open>Frames: getting and setting columns\<close>

lemma getitem_setitem_same: "getitem (setitem f c vs) c = Inr vs"
proof -
  have "c \<in> set (map fst cols) \<Longrightarrow>
        map_of (map (\<lambda>col. if fst col = c then (c, vs) else col) cols) c = Some vs" for cols :: "(string \<times> cell list) list"
    by (induction cols) auto
  moreover have "c \<notin> set (map fst cols) \<Longrightarrow> map_of (cols @ [(c, vs)]) c = Some vs" for cols :: "(string \<times> cell list) list"
    by (induction cols) auto
  ultimately show ?thesis
    by (simp add: getitem_def setitem_def)
qed


lemma index_setitem: "index (setitem f c vs) = index f"
  by (simp add: setitem_def)

lemma index_name_setitem: "index_name (setitem f c vs) = index_name f"
  by (simp add: setitem_def)

lemma names_setitem:
  "map fst (columns (setitem f c vs)) =
     map fst (columns f) @ (if c \<in> set (map fst (columns f)) then [] else [c])"
proof -
  have "map fst (map (\<lambda>col. if fst col = c then (c, vs) else col) cols) = map fst cols"
    for cols :: "(string \<times> cell list) list"
    by (induction cols) auto
  then show ?thesis
    by (simp add: setitem_def)
qed

lemma valued_steps:
  assumes "valued slot balances ci = Inr f"
  obtains j b p tv pc where
    "joined slot balances ci = Inr j"
    "getitem j ''balance'' = Inr b"
    "getitem j ''price_usd'' = Inr p"
    "column_mul b p = Inr tv"
    "share tv = Inr pc"
    "f = setitem (setitem j ''total_value_usd'' tv) ''portfolio_percentage'' pc"
  using assms
  by (auto simp: valued_def add_total_value_def add_portfolio_percentage_def getitem_setitem_same
      split: sum.splits)


















lemmas report_defs =
  report_pdf_def valued_def joined_def groupby_apply_def groupby_symbol_def
  combine_balances_def set_iter_def source_def symbol_def balance_def from_dict_def
  first_seen_def cell_at_def join_def add_total_value_def add_portfolio_percentage_def
  getitem_def setitem_def share_def nansum_def reset_index_def rename_def renamed_def
  get_rename_map_def



section \<open>The grouped and the joined frame\<close>


lemma index_name_groupby_apply: "index_name (groupby_apply slot b) = Some ''symbol''"
  by (simp add: groupby_apply_def Let_def)


lemma columns_groupby_apply:
  "b \<noteq> [] \<Longrightarrow> columns (groupby_apply slot b) =
     [(''source'', source_labels slot b),
      (''balance'', map (\<lambda>g. Num (Fin (sum_list (map balance (snd g))))) (groupby_symbol b))]"
  by (simp add: groupby_apply_def source_labels_def combine_balances_def Let_def o_def)

lemma columns_groupby_apply_Nil:
  "columns (groupby_apply slot []) = [(''source'', []), (''symbol'', []), (''balance'', [])]"
  by (simp add: groupby_apply_def)

lemma distinct_first_seen: "distinct (first_seen xs)"
  by (simp add: first_seen_def)

lemma names_from_dict:
  "map fst (columns (from_dict ci)) = first_seen (concat (map (\<lambda>e. map fst (snd e)) ci))"
  by (simp add: from_dict_def o_def)

lemma distinct_names_from_dict: "distinct (map fst (columns (from_dict ci)))"
  by (simp add: names_from_dict distinct_first_seen)

lemma index_from_dict: "index (from_dict ci) = map fst ci"
  by (simp add: from_dict_def)

lemma joined_Inr:
  assumes "joined slot b ci = Inr j"
  shows "index j = index (groupby_apply slot b)"
    and "index_name j = Some ''symbol''"
    and "columns j = columns (groupby_apply slot b) @
           map (\<lambda>col. (fst col, map (cell_at (map_of (zip (map fst ci) (snd col)))) (index (groupby_apply slot b))))
             (columns (from_dict ci))"
    and "set (map fst (columns (groupby_apply slot b))) \<inter> set (map fst (columns (from_dict ci))) = {}"
proof -
  let ?G = "groupby_apply slot b"
  let ?R = "(from_dict ci)\<lparr>index_name := Some ''symbol''\<rparr>"
  have jn: "join ?G ?R = Inr j"
    using assms by (simp add: joined_def Let_def)
  have no: "\<not> list_ex (\<lambda>c. c \<in> set (map fst (columns ?R))) (map fst (columns ?G))"
    using jn unfolding join_def by (metis Inl_Inr_False)
  then have eq: "j = ?G\<lparr>columns := columns ?G @
      map (\<lambda>col. (fst col, map (cell_at (map_of (zip (index ?R) (snd col)))) (index ?G))) (columns ?R)\<rparr>"
    using jn unfolding join_def by simp
  show "index j = index ?G"
    by (subst eq) simp
  show "index_name j = Some ''symbol''"
    by (subst eq) (simp add: index_name_groupby_apply)
  show "columns j = columns ?G @
           map (\<lambda>col. (fst col, map (cell_at (map_of (zip (map fst ci) (snd col)))) (index ?G)))
             (columns (from_dict ci))"
    by (subst eq) (simp add: index_from_dict)
  show "set (map fst (columns ?G)) \<inter> set (map fst (columns (from_dict ci))) = {}"
    using no by (auto simp: list_ex_iff)
qed



lemma map_of_mapped_columns_None:
  "map_of cols c = None \<Longrightarrow> map_of (map (\<lambda>col. (fst col, h col)) cols) c = None"
  by (induction cols) (auto split: if_splits)





section \<open>Missing market data\<close>


lemma joined_names:
  "joined slot b ci = Inr j \<Longrightarrow>
   map fst (columns j) = map fst (columns (groupby_apply slot b)) @ map fst (columns (from_dict ci))"
  by (simp add: joined_Inr(3) o_def)




section \<open>The report handed to the writer\<close>

lemma valued_index:
  assumes "valued slot b ci = Inr f"
  shows "index f = index (groupby_apply slot b)" and "index_name f = Some ''symbol''"
proof -
  from assms obtain j bb p tv pc where
    j: "joined slot b ci = Inr j" and
    f: "f = setitem (setitem j ''total_value_usd'' tv) ''portfolio_percentage'' pc"
    by (rule valued_steps)
  show "index f = index (groupby_apply slot b)"
    using f joined_Inr(1) [OF j] by (simp add: index_setitem)
  show "index_name f = Some ''symbol''"
    using f joined_Inr(2) [OF j] by (simp add: index_name_setitem)
qed

lemma valued_names:
  assumes "valued slot b ci = Inr f"
  shows "\<exists>extra. map fst (columns f) =
           map fst (columns (groupby_apply slot b)) @ map fst (columns (from_dict ci)) @ extra \<and>
           (''total_value_usd'' \<notin> set (map fst (columns (from_dict ci))) \<longrightarrow>
            ''portfolio_percentage'' \<notin> set (map fst (columns (from_dict ci))) \<longrightarrow>
            b \<noteq> [] \<longrightarrow> extra = [''total_value_usd'', ''portfolio_percentage''])"
proof -
  from assms obtain j bb p tv pc where
    j: "joined slot b ci = Inr j" and
    f: "f = setitem (setitem j ''total_value_usd'' tv) ''portfolio_percentage'' pc"
    by (rule valued_steps)
  let ?n = "map fst (columns (groupby_apply slot b)) @ map fst (columns (from_dict ci))"
  let ?e1 = "if ''total_value_usd'' \<in> set ?n then [] else [''total_value_usd'']"
  let ?e2 = "if ''portfolio_percentage'' \<in> set (?n @ ?e1) then [] else [''portfolio_percentage'']"
  have "map fst (columns f) = ?n @ ?e1 @ ?e2"
    unfolding f names_setitem joined_names [OF j] by simp
  moreover have "?e1 @ ?e2 = [''total_value_usd'', ''portfolio_percentage'']"
    if "''total_value_usd'' \<notin> set (map fst (columns (from_dict ci)))"
       "''portfolio_percentage'' \<notin> set (map fst (columns (from_dict ci)))" "b \<noteq> []"
    using that by (simp add: columns_groupby_apply)
  ultimately show ?thesis
    by (intro exI [of _ "?e1 @ ?e2"]) simp
qed

lemma report_pdf_Inr:
  assumes "report_pdf slot b ci = Inr t"
  obtains f where
    "valued slot b ci = Inr f"
    "''symbol'' \<notin> set (map fst (columns f))"
    "t = (''Symbol'', map Txt (index (groupby_apply slot b))) # rename get_rename_map (columns f)"
    "b \<noteq> []"
proof -
  from assms obtain f t0 where
    f: "valued slot b ci = Inr f" and t0: "reset_index f = Inr t0" and
    t: "t = rename get_rename_map t0"
    by (auto simp: report_pdf_def split: sum.splits)
  have nm: "index_name f = Some ''symbol''"
    by (rule valued_index(2) [OF f])
  have no: "''symbol'' \<notin> set (map fst (columns f))"
    using t0 nm by (simp add: reset_index_def Let_def split: if_splits)
  have "t0 = (''symbol'', map Txt (index f)) # columns f"
    using t0 nm by (simp add: reset_index_def Let_def split: if_splits)
  then have "t = (''Symbol'', map Txt (index (groupby_apply slot b))) # rename get_rename_map (columns f)"
    using t valued_index(1) [OF f]
    by (simp add: rename_def renamed_def get_rename_map_def)
  moreover have "b \<noteq> []"
  proof
    assume "b = []"
    then have "''symbol'' \<in> set (map fst (columns (groupby_apply slot b)))"
      by (simp add: columns_groupby_apply_Nil)
    moreover from valued_names [OF f] obtain extra where
      "map fst (columns f) =
         map fst (columns (groupby_apply slot b)) @ map fst (columns (from_dict ci)) @ extra"
      by blast
    ultimately have "''symbol'' \<in> set (map fst (columns f))"
      by simp
    with no show False
      by simp
  qed
  ultimately show thesis
    using f no that by blast
qed

lemma names_rename: "map fst (rename m t) = map (renamed m) (map fst t)"
  by (simp add: rename_def o_def)







text \<open>
  C9, as the code has it. The columns are renamed, never reordered. When the provider
  supplies the seven documented columns, the report has exactly the twelve labels, in this
  order: \<open>Symbol\<close> (the index, which \<open>reset_index\<close> puts first), \<open>Exchange(s) / Network(s)\<close>,
  \<open>Balance\<close>, the seven provider columns in the key order of the provider's dictionaries, then
  \<open>Total Value (USD)\<close> and \<open>Portfolio Percentage\<close>.
\<close>

theorem report_columns:
  assumes run: "report_pdf slot balances ci = Inr t"
    and seven: "set (map fst (columns (from_dict ci))) =
      {''name'', ''price_usd'', ''rank'', ''market_cap'', ''max_supply'', ''total_supply'',
       ''circulating_supply''}"
  shows "map fst t =
           [''Symbol'', ''Exchange(s) / Network(s)'', ''Balance''] @
           map (renamed get_rename_map) (map fst (columns (from_dict ci))) @
           [''Total Value (USD)'', ''Portfolio Percentage''] \<and>
         set (map fst t) =
           {''Exchange(s) / Network(s)'', ''Symbol'', ''Full Name'', ''Coin Rank'', ''Market Cap'',
            ''Max Supply'', ''Total Supply'', ''Circulating Supply'', ''Balance'', ''Price (USD)'',
            ''Total Value (USD)'', ''Portfolio Percentage''} \<and>
         distinct (map fst t)"
proof -
  let ?pcn = "map fst (columns (from_dict ci))"
  let ?r = "renamed get_rename_map"
  from run obtain f where
    f: "valued slot balances ci = Inr f" and
    "''symbol'' \<notin> set (map fst (columns f))" and
    t: "t = (''Symbol'', map Txt (index (groupby_apply slot balances))) # rename get_rename_map (columns f)" and
    ne: "balances \<noteq> []"
    by (rule report_pdf_Inr)
  have "''total_value_usd'' \<notin> set ?pcn" "''portfolio_percentage'' \<notin> set ?pcn"
    unfolding seven by simp_all
  with valued_names [OF f] ne
  have "map fst (columns f) = [''source'', ''balance''] @ ?pcn @ [''total_value_usd'', ''portfolio_percentage'']"
    by (auto simp: columns_groupby_apply)
  then have names: "map fst t = [''Symbol'', ''Exchange(s) / Network(s)'', ''Balance''] @
      map ?r ?pcn @ [''Total Value (USD)'', ''Portfolio Percentage'']"
    unfolding t by (simp add: names_rename) (simp add: renamed_def get_rename_map_def)
  have img: "set (map ?r ?pcn) =
      {''Full Name'', ''Price (USD)'', ''Coin Rank'', ''Market Cap'', ''Max Supply'',
       ''Total Supply'', ''Circulating Supply''}"
  proof -
    have "set (map ?r ?pcn) = ?r ` set ?pcn"
      by (simp only: set_map)
    also have "\<dots> = ?r ` {''name'', ''price_usd'', ''rank'', ''market_cap'', ''max_supply'',
        ''total_supply'', ''circulating_supply''}"
      by (simp only: seven)
    also have "\<dots> = {''Full Name'', ''Price (USD)'', ''Coin Rank'', ''Market Cap'', ''Max Supply'',
        ''Total Supply'', ''Circulating Supply''}"
      by (simp add: renamed_def get_rename_map_def)
    finally show ?thesis .
  qed
  have inj: "inj_on ?r (set ?pcn)"
    unfolding seven by (simp add: renamed_def get_rename_map_def)
  have dist: "distinct (map ?r ?pcn)"
    using inj distinct_names_from_dict [of ci] by (simp only: distinct_map)
  have "set (map fst t) =
           {''Exchange(s) / Network(s)'', ''Symbol'', ''Full Name'', ''Coin Rank'', ''Market Cap'',
            ''Max Supply'', ''Total Supply'', ''Circulating Supply'', ''Balance'', ''Price (USD)'',
            ''Total Value (USD)'', ''Portfolio Percentage''}"
    unfolding names set_append img by auto
  moreover have "distinct (map fst t)"
    unfolding names using dist img by simp
  ultimately show ?thesis
    using names by simp
qed

text \<open>The provider's keys in the order of the docstring of \<open>extract_additional_coin_info\<close>.\<close>

theorem report_columns_witness:
  "let t = [(''Symbol'', [Txt ''BTC'']),
        (''Exchange(s) / Network(s)'', [Txt ''binance'']),
        (''Balance'', [Num (Fin 2)]),
        (''Full Name'', [Txt ''Bitcoin'']),
        (''Price (USD)'', [Num (Fin 50000)]),
        (''Coin Rank'', [Num (Fin 1)]),
        (''Market Cap'', [Num (Fin 1000000)]),
        (''Max Supply'', [Num (Fin 21000000)]),
        (''Total Supply'', [Num (Fin 19000000)]),
        (''Circulating Supply'', [Num (Fin 19000000)]),
        (''Total Value (USD)'', [Num (Fin 100000)]),
        (''Portfolio Percentage'', [Num (Fin 1)])];
       ci = [(''BTC'', [(''name'', Txt ''Bitcoin''), (''price_usd'', Num (Fin 50000)),
                   (''rank'', Num (Fin 1)), (''market_cap'', Num (Fin 1000000)),
                   (''max_supply'', Num (Fin 21000000)), (''total_supply'', Num (Fin 19000000)),
                   (''circulating_supply'', Num (Fin 19000000))])]
   in report_pdf (\<lambda>s. 0) [(''binance'', ''BTC'', 2)] ci = Inr t \<and>
      set (map fst (columns (from_dict ci))) =
        {''name'', ''price_usd'', ''rank'', ''market_cap'', ''max_supply'', ''total_supply'',
         ''circulating_supply''} \<and>
      map fst t =
        [''Symbol'', ''Exchange(s) / Network(s)'', ''Balance''] @
        map (renamed get_rename_map) (map fst (columns (from_dict ci))) @
        [''Total Value (USD)'', ''Portfolio Percentage''] \<and>
      set (map fst t) =
        {''Exchange(s) / Network(s)'', ''Symbol'', ''Full Name'', ''Coin Rank'', ''Market Cap'',
         ''Max Supply'', ''Total Supply'', ''Circulating Supply'', ''Balance'', ''Price (USD)'',
         ''Total Value (USD)'', ''Portfolio Percentage''} \<and>
      distinct (map fst t)"
proof -
  have run: "report_pdf (\<lambda>s. 0) [(''binance'', ''BTC'', 2)]
        [(''BTC'', [(''name'', Txt ''Bitcoin''), (''price_usd'', Num (Fin 50000)),
                   (''rank'', Num (Fin 1)), (''market_cap'', Num (Fin 1000000)),
                   (''max_supply'', Num (Fin 21000000)), (''total_supply'', Num (Fin 19000000)),
                   (''circulating_supply'', Num (Fin 19000000))])] =
      Inr [(''Symbol'', [Txt ''BTC'']),
        (''Exchange(s) / Network(s)'', [Txt ''binance'']),
        (''Balance'', [Num (Fin 2)]),
        (''Full Name'', [Txt ''Bitcoin'']),
        (''Price (USD)'', [Num (Fin 50000)]),
        (''Coin Rank'', [Num (Fin 1)]),
        (''Market Cap'', [Num (Fin 1000000)]),
        (''Max Supply'', [Num (Fin 21000000)]),
        (''Total Supply'', [Num (Fin 19000000)]),
        (''Circulating Supply'', [Num (Fin 19000000)]),
        (''Total Value (USD)'', [Num (Fin 100000)]),
        (''Portfolio Percentage'', [Num (Fin 1)])]"
    by (simp add: report_defs)
  have seven: "set (map fst (columns (from_dict
        [(''BTC'', [(''name'', Txt ''Bitcoin''), (''price_usd'', Num (Fin 50000)),
                   (''rank'', Num (Fin 1)), (''market_cap'', Num (Fin 1000000)),
                   (''max_supply'', Num (Fin 21000000)), (''total_supply'', Num (Fin 19000000)),
                   (''circulating_supply'', Num (Fin 19000000))])]))) =
        {''name'', ''price_usd'', ''rank'', ''market_cap'', ''max_supply'', ''total_supply'',
         ''circulating_supply''}"
    by (simp add: from_dict_def first_seen_def)
  show ?thesis
    unfolding Let_def by (rule conjI [OF run conjI [OF seven report_columns [OF run seven]]])
qed

text \<open>
  C9 as stated fails: the labels of that report start with \<open>Symbol\<close>, and \<open>Balance\<close> is
  third; they are not in the order of the keys of the rename map.
\<close>

theorem field_order_counterexample:
  "map_sum id (map fst) (report_pdf (\<lambda>s. 0) [(''binance'', ''BTC'', 2)]
        [(''BTC'', [(''name'', Txt ''Bitcoin''), (''price_usd'', Num (Fin 50000)),
                   (''rank'', Num (Fin 1)), (''market_cap'', Num (Fin 1000000)),
                   (''max_supply'', Num (Fin 21000000)), (''total_supply'', Num (Fin 19000000)),
                   (''circulating_supply'', Num (Fin 19000000))])]) =
     Inr [''Symbol'', ''Exchange(s) / Network(s)'', ''Balance'', ''Full Name'', ''Price (USD)'',
          ''Coin Rank'', ''Market Cap'', ''Max Supply'', ''Total Supply'', ''Circulating Supply'',
          ''Total Value (USD)'', ''Portfolio Percentage''] \<and>
   map_sum id (map fst) (report_pdf (\<lambda>s. 0) [(''binance'', ''BTC'', 2)]
        [(''BTC'', [(''name'', Txt ''Bitcoin''), (''price_usd'', Num (Fin 50000)),
                   (''rank'', Num (Fin 1)), (''market_cap'', Num (Fin 1000000)),
                   (''max_supply'', Num (Fin 21000000)), (''total_supply'', Num (Fin 19000000)),
                   (''circulating_supply'', Num (Fin 19000000))])]) \<noteq>
     Inr [''Exchange(s) / Network(s)'', ''Symbol'', ''Full Name'', ''Coin Rank'', ''Market Cap'',
          ''Max Supply'', ''Total Supply'', ''Circulating Supply'', ''Balance'', ''Price (USD)'',
          ''Total Value (USD)'', ''Portfolio Percentage'']"
  by (simp add: report_defs)

section \<open>The source labels\<close>

lemma distinct_set_iter: "distinct (set_iter slot xs)"
  by (simp add: set_iter_def)

lemma set_set_iter: "set (set_iter slot xs) = set xs"
  by (simp add: set_iter_def)


lemma hd_set_iter:
  assumes "a \<in> set xs"
  shows "hd (set_iter (\<lambda>x. if x = a then 0 else 1) xs) = a"
proof -
  let ?k = "\<lambda>x. if x = a then 0 else (1::nat)"
  let ?ys = "set_iter ?k xs"
  have mem: "a \<in> set ?ys"
    using assms by (simp add: set_set_iter)
  then have ne: "?ys \<noteq> []"
    by auto
  have "sorted (map ?k ?ys)"
    unfolding set_iter_def by (rule sorted_sort_key)
  then have "\<forall>y\<in>set ?ys. ?k (hd ?ys) \<le> ?k y"
    using ne by (cases ?ys) auto
  with mem have "?k (hd ?ys) \<le> ?k a"
    by blast
  then show ?thesis
    by (simp split: if_splits)
qed



lemma setitem_keeps_head:
  "columns f = x # rest \<Longrightarrow> fst x \<noteq> c \<Longrightarrow> \<exists>rest'. columns (setitem f c vs) = x # rest'"
  by (simp add: setitem_def)

lemma valued_head:
  assumes v: "valued slot b ci = Inr f" and ne: "b \<noteq> []"
  shows "\<exists>rest. columns f = (''source'', source_labels slot b) # rest"
proof -
  from v obtain j bb p tv pc where
    j: "joined slot b ci = Inr j" and
    f: "f = setitem (setitem j ''total_value_usd'' tv) ''portfolio_percentage'' pc"
    by (rule valued_steps)
  from joined_Inr(3) [OF j] ne obtain r0 where "columns j = (''source'', source_labels slot b) # r0"
    by (simp add: columns_groupby_apply)
  from setitem_keeps_head [OF this, of "''total_value_usd''" tv] obtain r1 where
    "columns (setitem j ''total_value_usd'' tv) = (''source'', source_labels slot b) # r1"
    by auto
  from setitem_keeps_head [OF this, of "''portfolio_percentage''" pc] show ?thesis
    unfolding f by auto
qed

text \<open>
  C10. In a report that is produced, the first column holds the symbol of each group and the
  second column is \<open>Exchange(s) / Network(s)\<close>: the cell of a group is the string that joins
  with \<open>|\<close> the names met when iterating over the set of the group's sources. Those names are
  pairwise distinct and are exactly the sources of the group. The computation does not fix
  their order: any source of a group comes first under some iteration order.
\<close>

theorem source_label:
  assumes "report_pdf slot balances ci = Inr t"
  shows "t ! 0 = (''Symbol'', map (\<lambda>g. Txt (fst g)) (groupby_symbol balances)) \<and>
         t ! 1 = (''Exchange(s) / Network(s)'',
                  map (\<lambda>g. Txt (str_join ''|'' (set_iter slot (map source (snd g)))))
                    (groupby_symbol balances)) \<and>
         (\<forall>g\<in>set (groupby_symbol balances).
            distinct (set_iter slot (map source (snd g))) \<and>
            set (set_iter slot (map source (snd g))) = source ` set (snd g)) \<and>
         (\<forall>xs a b. a \<in> set xs \<and> b \<in> set xs \<longrightarrow>
            (\<exists>slot1 slot2. hd (set_iter slot1 xs) = a \<and> hd (set_iter slot2 xs) = b))"
proof -
  from assms obtain f where
    f: "valued slot balances ci = Inr f" and
    "''symbol'' \<notin> set (map fst (columns f))" and
    t: "t = (''Symbol'', map Txt (index (groupby_apply slot balances))) #
            rename get_rename_map (columns f)" and
    ne: "balances \<noteq> []"
    by (rule report_pdf_Inr)
  from valued_head [OF f ne] obtain rest where
    "columns f = (''source'', source_labels slot balances) # rest"
    by blast
  then have "t ! 1 = (''Exchange(s) / Network(s)'', source_labels slot balances)"
    unfolding t by (simp add: rename_def renamed_def get_rename_map_def)
  moreover have "t ! 0 = (''Symbol'', map (\<lambda>g. Txt (fst g)) (groupby_symbol balances))"
    unfolding t using ne by (simp add: groupby_apply_def Let_def o_def)
  moreover have "\<forall>xs a b. a \<in> set xs \<and> b \<in> set xs \<longrightarrow>
      (\<exists>slot1 slot2. hd (set_iter slot1 xs) = a \<and> hd (set_iter slot2 xs) = b)"
    using hd_set_iter by blast
  ultimately show ?thesis
    by (simp add: source_labels_def distinct_set_iter set_set_iter)
qed

theorem source_label_witness:
  "let t = [(''Symbol'', [Txt ''BTC'', Txt ''ETH'']),
        (''Exchange(s) / Network(s)'', [Txt ''kraken|binance'', Txt ''manual'']),
        (''Balance'', [Num (Fin (3 / 2)), Num (Fin 2)]),
        (''Full Name'', [Txt ''Bitcoin'', Txt ''Ethereum'']),
        (''Price (USD)'', [Num (Fin 50000), Num (Fin 3000)]),
        (''Total Value (USD)'', [Num (Fin 75000), Num (Fin 6000)]),
        (''Portfolio Percentage'', [Num (Fin (25 / 27)), Num (Fin (2 / 27))])]
   in report_pdf length [(''binance'', ''BTC'', 1), (''kraken'', ''BTC'', 1 / 2), (''manual'', ''ETH'', 2)]
        [(''BTC'', [(''name'', Txt ''Bitcoin''), (''price_usd'', Num (Fin 50000))]),
         (''ETH'', [(''name'', Txt ''Ethereum''), (''price_usd'', Num (Fin 3000))])] = Inr t \<and>
      t ! 1 = (''Exchange(s) / Network(s)'', [Txt ''kraken|binance'', Txt ''manual'']) \<and>
      set_iter length [''binance'', ''kraken''] = [''kraken'', ''binance''] \<and>
      (\<exists>slot1 slot2. hd (set_iter slot1 [''binance'', ''kraken'']) = ''binance'' \<and>
                     hd (set_iter slot2 [''binance'', ''kraken'']) = ''kraken'')"
proof -
  let ?t = "[(''Symbol'', [Txt ''BTC'', Txt ''ETH'']),
        (''Exchange(s) / Network(s)'', [Txt ''kraken|binance'', Txt ''manual'']),
        (''Balance'', [Num (Fin (3 / 2)), Num (Fin 2)]),
        (''Full Name'', [Txt ''Bitcoin'', Txt ''Ethereum'']),
        (''Price (USD)'', [Num (Fin 50000), Num (Fin 3000)]),
        (''Total Value (USD)'', [Num (Fin 75000), Num (Fin 6000)]),
        (''Portfolio Percentage'', [Num (Fin (25 / 27)), Num (Fin (2 / 27))])]"
  have run: "report_pdf length [(''binance'', ''BTC'', 1), (''kraken'', ''BTC'', 1 / 2), (''manual'', ''ETH'', 2)]
        [(''BTC'', [(''name'', Txt ''Bitcoin''), (''price_usd'', Num (Fin 50000))]),
         (''ETH'', [(''name'', Txt ''Ethereum''), (''price_usd'', Num (Fin 3000))])] = Inr ?t"
    by (simp add: report_defs)
  note label = source_label [OF run, THEN conjunct2, THEN conjunct1]
  note free = source_label [OF run, THEN conjunct2, THEN conjunct2, THEN conjunct2, rule_format]
  have "map (\<lambda>g. Txt (str_join ''|'' (set_iter length (map source (snd g)))))
        (groupby_symbol [(''binance'', ''BTC'', 1), (''kraken'', ''BTC'', 1 / 2), (''manual'', ''ETH'', 2)]) =
        [Txt ''kraken|binance'', Txt ''manual'']"
    by (simp add: report_defs)
  with label have a: "?t ! 1 = (''Exchange(s) / Network(s)'', [Txt ''kraken|binance'', Txt ''manual''])"
    by (simp only:)
  have b: "set_iter length [''binance'', ''kraken''] = [''kraken'', ''binance'']"
    by (simp add: set_iter_def)
  have "''binance'' \<in> set [''binance'', ''kraken''] \<and> ''kraken'' \<in> set [''binance'', ''kraken'']"
    by simp
  then have c: "\<exists>slot1 slot2. hd (set_iter slot1 [''binance'', ''kraken'']) = ''binance'' \<and>
                     hd (set_iter slot2 [''binance'', ''kraken'']) = ''kraken''"
    by (rule free)
  from run a b c show ?thesis
    unfolding Let_def by (intro conjI)
qed

section \<open>Two runs on the same inputs\<close>

lemma with_source_simps:
  "index (with_source S f) = index f"
  "index_name (with_source S f) = index_name f"
  by (simp_all add: with_source_def)

lemma names_with_source:
  "source_first f \<Longrightarrow> map fst (columns (with_source S f)) = map fst (columns f)"
  by (auto simp: with_source_def source_first_def)

lemma getitem_with_source:
  "source_first f \<Longrightarrow> c \<noteq> ''source'' \<Longrightarrow> getitem (with_source S f) c = getitem f c"
  by (auto simp: with_source_def source_first_def getitem_def)

lemma setitem_with_source:
  assumes "source_first f" and "c \<noteq> ''source''"
  shows "setitem (with_source S f) c vs = with_source S (setitem f c vs)"
    and "source_first (setitem f c vs)"
  using assms
  by (auto simp: with_source_def source_first_def setitem_def)

lemma join_with_source:
  assumes "source_first f"
  shows "join (with_source S f) r = map_sum id (with_source S) (join f r)"
    and "join f r = Inr j \<Longrightarrow> source_first j"
proof -
  from assms obtain S0 rest where c: "columns f = (''source'', S0) # rest"
    by (auto simp: source_first_def)
  show "join (with_source S f) r = map_sum id (with_source S) (join f r)"
    unfolding join_def names_with_source [OF assms] with_source_simps
    by (simp add: with_source_def c)
  show "source_first j" if "join f r = Inr j"
    using that c by (auto simp: join_def source_first_def split: if_splits)
qed

lemma add_total_value_with_source:
  assumes "source_first f"
  shows "add_total_value (with_source S f) = map_sum id (with_source S) (add_total_value f)"
    and "add_total_value f = Inr f1 \<Longrightarrow> source_first f1"
proof -
  show "add_total_value (with_source S f) = map_sum id (with_source S) (add_total_value f)"
    unfolding add_total_value_def
    by (simp add: getitem_with_source [OF assms] setitem_with_source(1) [OF assms]
        split: sum.splits)
  show "source_first f1" if "add_total_value f = Inr f1"
    using that setitem_with_source(2) [OF assms, of "''total_value_usd''"]
    by (auto simp: add_total_value_def split: sum.splits)
qed

lemma add_portfolio_percentage_with_source:
  assumes "source_first f"
  shows "add_portfolio_percentage (with_source S f) =
           map_sum id (with_source S) (add_portfolio_percentage f)"
    and "add_portfolio_percentage f = Inr f1 \<Longrightarrow> source_first f1"
proof -
  show "add_portfolio_percentage (with_source S f) =
           map_sum id (with_source S) (add_portfolio_percentage f)"
    unfolding add_portfolio_percentage_def
    by (simp add: getitem_with_source [OF assms] setitem_with_source(1) [OF assms]
        split: sum.splits)
  show "source_first f1" if "add_portfolio_percentage f = Inr f1"
    using that setitem_with_source(2) [OF assms, of "''portfolio_percentage''"]
    by (auto simp: add_portfolio_percentage_def split: sum.splits)
qed

lemma reset_index_with_source:
  assumes "source_first f"
  shows "reset_index (with_source S f) =
           map_sum id (\<lambda>t. t[1 := (''source'', S)]) (reset_index f)"
proof -
  from assms obtain S0 rest where c: "columns f = (''source'', S0) # rest"
    by (auto simp: source_first_def)
  show ?thesis
    unfolding reset_index_def names_with_source [OF assms] with_source_simps
    by (simp add: Let_def with_source_def c)
qed

lemma rename_update: "rename m (t[i := (c, S)]) = (rename m t)[i := (renamed m c, S)]"
  by (simp add: rename_def map_update)

lemma groupby_apply_with_source:
  "b \<noteq> [] \<Longrightarrow>
   groupby_apply s2 b = with_source (source_labels s2 b) (groupby_apply s1 b)"
  "b \<noteq> [] \<Longrightarrow> source_first (groupby_apply s1 b)"
  by (simp_all add: groupby_apply_def with_source_def source_first_def source_labels_def
      combine_balances_def Let_def o_def)

lemma valued_with_source:
  assumes ne: "b \<noteq> []"
  shows "valued s2 b ci = map_sum id (with_source (source_labels s2 b)) (valued s1 b ci)"
    and "valued s1 b ci = Inr f \<Longrightarrow> source_first f"
proof -
  let ?S = "source_labels s2 b"
  let ?r = "(from_dict ci)\<lparr>index_name := Some ''symbol''\<rparr>"
  have g: "source_first (groupby_apply s1 b)"
    by (rule groupby_apply_with_source(2) [OF ne])
  have j: "joined s2 b ci = map_sum id (with_source ?S) (joined s1 b ci)"
    unfolding joined_def Let_def
    by (simp only: groupby_apply_with_source(1) [OF ne, of s2 s1] join_with_source(1) [OF g])
  have js: "source_first j" if "joined s1 b ci = Inr j" for j
    using that join_with_source(2) [OF g, of ?r j] by (simp add: joined_def Let_def)
  show "valued s2 b ci = map_sum id (with_source ?S) (valued s1 b ci)"
  proof (cases "joined s1 b ci")
    case (Inl e)
    then show ?thesis
      by (simp add: valued_def j)
  next
    case (Inr j1)
    note j1 = this
    have s1: "source_first j1"
      by (rule js [OF j1])
    show ?thesis
    proof (cases "add_total_value j1")
      case (Inl e)
      then show ?thesis
        by (simp add: valued_def j j1 add_total_value_with_source(1) [OF s1])
    next
      case (Inr f1)
      have "source_first f1"
        by (rule add_total_value_with_source(2) [OF s1 Inr])
      then show ?thesis
        by (simp add: valued_def j j1 Inr add_total_value_with_source(1) [OF s1]
            add_portfolio_percentage_with_source(1))
    qed
  qed
  show "source_first f" if "valued s1 b ci = Inr f"
  proof -
    from that obtain j1 f1 where
      a: "joined s1 b ci = Inr j1" "add_total_value j1 = Inr f1" "add_portfolio_percentage f1 = Inr f"
      by (auto simp: valued_def split: sum.splits)
    have "source_first f1"
      by (rule add_total_value_with_source(2) [OF js [OF a(1)] a(2)])
    then show ?thesis
      by (rule add_portfolio_percentage_with_source(2) [OF _ a(3)])
  qed
qed

text \<open>
  C6, as the code has it. Two runs on the same balances and the same coin information may
  differ in the iteration order of the sets of strings. The second run ends as the first
  does: with the same error, or with the report of the first run in which the cells of the
  second column, \<open>Exchange(s) / Network(s)\<close>, are the labels computed under the second order.
  The labels of the two runs join, group by group, the same distinct names.
\<close>

theorem reruns_agree:
  "report_pdf slot2 balances ci =
     map_sum id (\<lambda>t. t[1 := (''Exchange(s) / Network(s)'', source_labels slot2 balances)])
       (report_pdf slot1 balances ci) \<and>
   length (source_labels slot1 balances) = length (source_labels slot2 balances) \<and>
   (\<forall>xs. distinct (set_iter slot1 xs) \<and> distinct (set_iter slot2 xs) \<and>
         set (set_iter slot1 xs) = set (set_iter slot2 xs))"
proof -
  let ?S = "source_labels slot2 balances"
  have "report_pdf slot2 balances ci =
     map_sum id (\<lambda>t. t[1 := (''Exchange(s) / Network(s)'', ?S)]) (report_pdf slot1 balances ci)"
  proof (cases "balances = []")
    case True
    have same: "report_pdf slot2 [] ci = report_pdf slot1 [] ci"
      by (simp add: report_pdf_def valued_def joined_def groupby_apply_def)
    have "\<exists>e. report_pdf slot1 [] ci = Inl e"
    proof (cases "report_pdf slot1 [] ci")
      case (Inl e)
      then show ?thesis by blast
    next
      case (Inr t)
      then show ?thesis
        by (rule report_pdf_Inr) simp
    qed
    then show ?thesis
      using True same by auto
  next
    case False
    show ?thesis
    proof (cases "valued slot1 balances ci")
      case (Inl e)
      then show ?thesis
        by (simp add: report_pdf_def valued_with_source(1) [OF False, of slot2 ci slot1])
    next
      case (Inr f)
      have sf: "source_first f"
        by (rule valued_with_source(2) [OF False Inr])
      show ?thesis
        by (cases "reset_index f")
           (simp_all add: report_pdf_def valued_with_source(1) [OF False, of slot2 ci slot1] Inr
             reset_index_with_source [OF sf] rename_update renamed_def get_rename_map_def)
    qed
  qed
  then show ?thesis
    by (simp add: source_labels_def distinct_set_iter set_set_iter)
qed

text \<open>
  C6 as stated fails: the same inputs under two iteration orders give two reports that differ
  in the label of BTC.
\<close>

theorem rerun_label_counterexample:
  "report_pdf (\<lambda>s. 0) [(''binance'', ''BTC'', 1), (''kraken'', ''BTC'', 1 / 2), (''manual'', ''ETH'', 2)]
        [(''BTC'', [(''name'', Txt ''Bitcoin''), (''price_usd'', Num (Fin 50000))]),
         (''ETH'', [(''name'', Txt ''Ethereum''), (''price_usd'', Num (Fin 3000))])] =
   Inr [(''Symbol'', [Txt ''BTC'', Txt ''ETH'']),
        (''Exchange(s) / Network(s)'', [Txt ''binance|kraken'', Txt ''manual'']),
        (''Balance'', [Num (Fin (3 / 2)), Num (Fin 2)]),
        (''Full Name'', [Txt ''Bitcoin'', Txt ''Ethereum'']),
        (''Price (USD)'', [Num (Fin 50000), Num (Fin 3000)]),
        (''Total Value (USD)'', [Num (Fin 75000), Num (Fin 6000)]),
        (''Portfolio Percentage'', [Num (Fin (25 / 27)), Num (Fin (2 / 27))])] \<and>
   report_pdf length [(''binance'', ''BTC'', 1), (''kraken'', ''BTC'', 1 / 2), (''manual'', ''ETH'', 2)]
        [(''BTC'', [(''name'', Txt ''Bitcoin''), (''price_usd'', Num (Fin 50000))]),
         (''ETH'', [(''name'', Txt ''Ethereum''), (''price_usd'', Num (Fin 3000))])] =
   Inr [(''Symbol'', [Txt ''BTC'', Txt ''ETH'']),
        (''Exchange(s) / Network(s)'', [Txt ''kraken|binance'', Txt ''manual'']),
        (''Balance'', [Num (Fin (3 / 2)), Num (Fin 2)]),
        (''Full Name'', [Txt ''Bitcoin'', Txt ''Ethereum'']),
        (''Price (USD)'', [Num (Fin 50000), Num (Fin 3000)]),
        (''Total Value (USD)'', [Num (Fin 75000), Num (Fin 6000)]),
        (''Portfolio Percentage'', [Num (Fin (25 / 27)), Num (Fin (2 / 27))])]"
  by (simp add: report_defs)

end
